theory Spec2Isabelle
  imports Complex_Main
begin

section \<open>Data model\<close>

text \<open>
  A JavaScript string is a sequence of UTF-16 code units. Identifiers are only compared,
  node content is also trimmed, so a code unit is modelled by its number. \<open>js\<close> turns an
  ASCII literal of the source into such a sequence.
\<close>

type_synonym jsstring = "nat list"

definition js :: "string \<Rightarrow> jsstring" where
  "js s = map of_char s"

text \<open>
  A value of type \<open>string | null\<close> (or an optional string field) is a \<open>jsstring option\<close>:
  \<open>None\<close> stands for both \<open>null\<close> and \<open>undefined\<close>, which the code below never tells apart
  (it only tests such values for truthiness, applies \<open>??\<close>, or compares them with a truthy
  string). \<open>truthy\<close> is JavaScript's boolean coercion on these values: \<open>null\<close>, \<open>undefined\<close>
  and the empty string are falsy.
\<close>

fun truthy :: "jsstring option \<Rightarrow> bool" where
  "truthy None = False"
| "truthy (Some s) = (s \<noteq> [])"

text \<open>flowStore.ts: \<open>TextMessageNodeData\<close>, and \<open>Partial<TextMessageNodeData>\<close> whose field
  may be absent. The one caller, the properties panel, always passes a string; a payload
  that carries the field with the value \<open>undefined\<close> has no counterpart here.\<close>

record TextMessageNodeData =
  content :: jsstring

record PartialTextMessageNodeData =
  content_opt :: "jsstring option"

text \<open>The fields of a reactflow \<open>Node\<close> that the repository reads or writes. Coordinates are
  numbers that the code only stores.\<close>

record position =
  pos_x :: real
  pos_y :: real

record node =
  node_id :: jsstring
  node_type :: "jsstring option"
  position :: position
  data :: TextMessageNodeData

text \<open>The fields of a reactflow \<open>Edge\<close> that \<open>handleConnect\<close> fills in.\<close>

datatype MarkerType = Arrow | ArrowClosed

record EdgeMarker =
  marker_type :: MarkerType

record EdgeStyle =
  stroke :: jsstring
  strokeWidth :: real

record edge =
  edge_id :: jsstring
  edge_source :: jsstring
  edge_target :: jsstring
  edge_sourceHandle :: "jsstring option"
  edge_targetHandle :: "jsstring option"
  edge_type :: "jsstring option"
  markerEnd :: "EdgeMarker option"
  style :: "EdgeStyle option"

text \<open>A reactflow \<open>Connection\<close>: all four fields are \<open>string | null\<close>.\<close>

record connection =
  source :: "jsstring option"
  target :: "jsstring option"
  sourceHandle :: "jsstring option"
  targetHandle :: "jsstring option"

text \<open>The state part of \<open>FlowStore\<close>; its operations are the functions below, each taking
  the state and returning the new one, as zustand's \<open>set\<close> does.\<close>

record FlowStore =
  nodes :: "node list"
  edges :: "edge list"
  selectedNodeId :: "jsstring option"

text \<open>What a handler of the editor does besides changing the store: a toast of either
  severity, or the console output of the saved snapshot.\<close>

datatype effect =
    ToastError jsstring
  | ToastSuccess jsstring
  | ConsoleLog "node list" "edge list"

section \<open>The flow state store (flowStore.ts)\<close>

definition initialNodes :: "node list" where
  "initialNodes =
     [\<lparr>node_id = js ''node-1'',
       node_type = Some (js ''textMessage''),
       position = \<lparr>pos_x = 250, pos_y = 80\<rparr>,
       data = \<lparr>content = js ''Hello! How can I help you today?''\<rparr>\<rparr>]"

definition initialEdges :: "edge list" where
  "initialEdges = []"

definition initialState :: FlowStore where
  "initialState = \<lparr>nodes = initialNodes, edges = initialEdges, selectedNodeId = None\<rparr>"

definition setSelectedNodeId :: "jsstring option \<Rightarrow> FlowStore \<Rightarrow> FlowStore" where
  "setSelectedNodeId nodeId state = state\<lparr>selectedNodeId := nodeId\<rparr>"

definition addNode :: "node \<Rightarrow> FlowStore \<Rightarrow> FlowStore" where
  "addNode node state =
     state\<lparr>nodes := nodes state @ [node], selectedNodeId := Some (node_id node)\<rparr>"

text \<open>The object spread \<open>{ ...node.data, ...data }\<close>: a field present in the partial payload
  replaces the node's one.\<close>

definition mergeData :: "TextMessageNodeData \<Rightarrow> PartialTextMessageNodeData \<Rightarrow> TextMessageNodeData" where
  "mergeData d p = (case content_opt p of None \<Rightarrow> d | Some c \<Rightarrow> d\<lparr>content := c\<rparr>)"

definition updateNodeData :: "jsstring \<Rightarrow> PartialTextMessageNodeData \<Rightarrow> FlowStore \<Rightarrow> FlowStore" where
  "updateNodeData nodeId d state =
     state\<lparr>nodes := map (\<lambda>node. if node_id node = nodeId
                                 then node\<lparr>data := mergeData (data node) d\<rparr>
                                 else node) (nodes state)\<rparr>"

definition setNodes :: "node list \<Rightarrow> FlowStore \<Rightarrow> FlowStore" where
  "setNodes ns state = state\<lparr>nodes := ns\<rparr>"

definition setEdges :: "edge list \<Rightarrow> FlowStore \<Rightarrow> FlowStore" where
  "setEdges es state = state\<lparr>edges := es\<rparr>"

text \<open>
  The store's \<open>addEdge\<close> hands the edge to the \<open>addEdge\<close> helper that flowStore.ts imports
  from the reactflow package under the name \<open>addReactFlowEdge\<close>. The package is a
  dependency of the repository, not part of its sources. The two definitions that follow
  transcribe the helper of reactflow 11 (the version the README names) and its
  \<open>connectionExists\<close> test: an edge without a source or a target is dropped, an edge whose
  connection (source, target and both handles, falsy handles counting as equal) is already
  in the list is dropped, and any other edge is put at the end of the list.
\<close>

definition connectionExists :: "edge \<Rightarrow> edge list \<Rightarrow> bool" where
  "connectionExists e es =
     list_ex (\<lambda>el. edge_source el = edge_source e \<and>
                   edge_target el = edge_target e \<and>
                   (edge_sourceHandle el = edge_sourceHandle e \<or>
                    (\<not> truthy (edge_sourceHandle el) \<and> \<not> truthy (edge_sourceHandle e))) \<and>
                   (edge_targetHandle el = edge_targetHandle e \<or>
                    (\<not> truthy (edge_targetHandle el) \<and> \<not> truthy (edge_targetHandle e)))) es"

definition addReactFlowEdge :: "edge \<Rightarrow> edge list \<Rightarrow> edge list" where
  "addReactFlowEdge edgeParams es =
     (if edge_source edgeParams = [] \<or> edge_target edgeParams = [] then es
      else if connectionExists edgeParams es then es
      else es @ [edgeParams])"

definition addEdge :: "edge \<Rightarrow> FlowStore \<Rightarrow> FlowStore" where
  "addEdge e state = state\<lparr>edges := addReactFlowEdge e (edges state)\<rparr>"

section \<open>The flow editor (FlowBuilder)\<close>

text \<open>\<open>canConnect\<close> reads the edge collection of the store.\<close>

definition hasExistingEdge :: "FlowStore \<Rightarrow> connection \<Rightarrow> bool" where
  "hasExistingEdge state c =
     list_ex (\<lambda>e. Some (edge_source e) = source c \<and>
                  (\<not> truthy (sourceHandle c) \<or> edge_sourceHandle e = sourceHandle c))
             (edges state)"

definition canConnect :: "FlowStore \<Rightarrow> connection \<Rightarrow> bool" where
  "canConnect state c =
     (if \<not> truthy (source c) then False
      else if hasExistingEdge state c then False
      else if source c = target c then False
      else True)"

text \<open>
  \<open>handleConnect\<close>. The identifier of the new edge comes from \<open>crypto.randomUUID()\<close> or
  from the clock; it is the argument \<open>newId\<close> here.
\<close>

definition newEdge :: "jsstring \<Rightarrow> jsstring \<Rightarrow> jsstring \<Rightarrow> connection \<Rightarrow> edge" where
  "newEdge newId src tgt c =
     \<lparr>edge_id = newId,
      edge_source = src,
      edge_target = tgt,
      edge_sourceHandle = sourceHandle c,
      edge_targetHandle = targetHandle c,
      edge_type = Some (js ''smoothstep''),
      markerEnd = Some \<lparr>marker_type = ArrowClosed\<rparr>,
      style = Some \<lparr>stroke = js ''#6366f1'', strokeWidth = 2\<rparr>\<rparr>"

definition handleConnect :: "jsstring \<Rightarrow> connection \<Rightarrow> FlowStore \<Rightarrow> FlowStore \<times> effect list" where
  "handleConnect newId c state =
     (if \<not> canConnect state c
      then (state, [ToastError (js ''Each message can branch to only one next step.'')])
      else if \<not> truthy (source c) \<or> \<not> truthy (target c) then (state, [])
      else (case (source c, target c) of
              (Some src, Some tgt) \<Rightarrow> (addEdge (newEdge newId src tgt c) state, [])
            | _ \<Rightarrow> (state, [])))"

text \<open>
  The expression that computes that identifier in \<open>handleConnect\<close>:
  \<open>crypto.randomUUID()\<close> where the platform has \<open>crypto\<close> with \<open>randomUUID\<close>, otherwise the
  template literal \<open>edge-${Date.now()}\<close>. The platform is what one evaluation of the
  expression sees: the value \<open>randomUUID\<close> returns, if it exists, and the clock in
  milliseconds. \<open>toDecimal\<close> is the decimal numeral that the template literal makes of
  the clock value.
\<close>

record platform =
  crypto_randomUUID :: "jsstring option"
  date_now :: nat

fun toDecimal :: "nat \<Rightarrow> jsstring" where
  "toDecimal n = (if n < 10 then [48 + n] else toDecimal (n div 10) @ [48 + n mod 10])"

declare toDecimal.simps [simp del]

definition generateEdgeId :: "platform \<Rightarrow> jsstring" where
  "generateEdgeId p =
     (case crypto_randomUUID p of
        Some uuid \<Rightarrow> uuid
      | None \<Rightarrow> js ''edge-'' @ toDecimal (date_now p))"

text \<open>
  \<open>String.prototype.trim\<close> removes the white space and line terminator code units of
  ECMAScript from both ends: TAB, LF, VT, FF, CR, SP, NBSP, U+1680, U+2000 to U+200A,
  U+2028, U+2029, U+202F, U+205F, U+3000 and U+FEFF.
\<close>

definition isWhiteSpace :: "nat \<Rightarrow> bool" where
  "isWhiteSpace c =
     (c = 9 \<or> c = 10 \<or> c = 11 \<or> c = 12 \<or> c = 13 \<or> c = 32 \<or> c = 160 \<or> c = 5760 \<or>
      (8192 \<le> c \<and> c \<le> 8202) \<or> c = 8232 \<or> c = 8233 \<or> c = 8239 \<or> c = 8287 \<or>
      c = 12288 \<or> c = 65279)"

definition trim :: "jsstring \<Rightarrow> jsstring" where
  "trim s = rev (dropWhile isWhiteSpace (rev (dropWhile isWhiteSpace s)))"

definition nodesWithoutIncomingEdge :: "FlowStore \<Rightarrow> node list" where
  "nodesWithoutIncomingEdge state =
     filter (\<lambda>node. \<not> list_ex (\<lambda>e. edge_target e = node_id node) (edges state)) (nodes state)"

definition nodesWithoutMessage :: "FlowStore \<Rightarrow> node list" where
  "nodesWithoutMessage state =
     filter (\<lambda>node. content (data node) = [] \<or> trim (content (data node)) = []) (nodes state)"

definition handleSave :: "FlowStore \<Rightarrow> FlowStore \<times> effect list" where
  "handleSave state =
     (if length (nodes state) = 0
      then (state, [ToastError (js ''Add at least one node before saving.'')])
      else if length (nodesWithoutIncomingEdge state) > 1
      then (state, [ToastError
             (js ''Only one starting node is allowed. Connect your flow before saving.'')])
      else if length (nodesWithoutMessage state) > 0
      then (state, [ToastError (js ''Every node needs message content before saving.'')])
      else (state, [ToastSuccess (js ''Flow saved successfully!''),
                    ConsoleLog (nodes state) (edges state)]))"


section \<open>The connection rule in the specification's words\<close>

text \<open>
  The specification accepts a connection when it has a source endpoint, no edge leaves the
  same source node through the same source handle, an absent handle being one implicit
  handle of its own, and source and target differ. \<open>sameHandle\<close> is that comparison of
  handles: two absent handles are the same handle, two present ones are the same when
  equal, and an absent handle is not a present one.
\<close>

definition sameHandle :: "jsstring option \<Rightarrow> jsstring option \<Rightarrow> bool" where
  "sameHandle h h' =
     (if truthy h \<and> truthy h' then h = h' else \<not> truthy h \<and> \<not> truthy h')"

definition canConnect_spec :: "FlowStore \<Rightarrow> connection \<Rightarrow> bool" where
  "canConnect_spec state c =
     (truthy (source c) \<and>
      \<not> list_ex (\<lambda>e. Some (edge_source e) = source c \<and>
                      sameHandle (edge_sourceHandle e) (sourceHandle c)) (edges state) \<and>
      source c \<noteq> target c)"

section \<open>Auxiliary facts\<close>

lemma dropWhile_all_iff:
  "(\<forall>x\<in>set (dropWhile P xs). P x) \<longleftrightarrow> (\<forall>x\<in>set xs. P x)"
proof
  assume a: "\<forall>x\<in>set (dropWhile P xs). P x"
  have "dropWhile P xs = []"
  proof (rule ccontr)
    assume n: "dropWhile P xs \<noteq> []"
    then have "\<not> P (hd (dropWhile P xs))" by (rule hd_dropWhile)
    moreover have "hd (dropWhile P xs) \<in> set (dropWhile P xs)" using n by simp
    ultimately show False using a by blast
  qed
  then show "\<forall>x\<in>set xs. P x" by simp
next
  assume "\<forall>x\<in>set xs. P x"
  then show "\<forall>x\<in>set (dropWhile P xs). P x" by (meson set_dropWhileD)
qed

lemma trim_Nil_iff: "trim s = [] \<longleftrightarrow> (\<forall>c\<in>set s. isWhiteSpace c)"
  by (simp add: trim_def dropWhile_all_iff)

lemma nodesWithoutMessage_Nil_iff:
  "nodesWithoutMessage state = [] \<longleftrightarrow>
     (\<forall>n\<in>set (nodes state). trim (content (data n)) \<noteq> [])"
proof -
  have "trim [] = []" by (simp add: trim_def)
  then have "\<And>n::node. trim (content (data n)) \<noteq> [] \<Longrightarrow> content (data n) \<noteq> []"
    by metis
  then show ?thesis by (auto simp: nodesWithoutMessage_def filter_empty_conv)
qed

lemma set_nodesWithoutIncomingEdge:
  "set (nodesWithoutIncomingEdge state) =
     {n \<in> set (nodes state). \<forall>e\<in>set (edges state). edge_target e \<noteq> node_id n}"
  by (auto simp: nodesWithoutIncomingEdge_def list_ex_iff)

lemma canConnect_no_duplicate:
  assumes "canConnect state c" and "source c = Some src"
  shows "\<not> connectionExists (newEdge newId src tgt c) (edges state)"
  using assms
  by (auto simp: canConnect_def hasExistingEdge_def connectionExists_def newEdge_def
        list_ex_iff split: if_splits)

lemma nodesWithoutIncomingEdge_filter:
  "nodesWithoutIncomingEdge state =
     filter (\<lambda>n. \<forall>e\<in>set (edges state). edge_target e \<noteq> node_id n) (nodes state)"
  by (simp add: nodesWithoutIncomingEdge_def list_ex_iff)

lemma trim_Nil_iff_subset:
  "trim s = [] \<longleftrightarrow>
     set s \<subseteq> {9, 10, 11, 12, 13, 32, 160, 5760, 8232, 8233, 8239, 8287, 12288, 65279}
              \<union> {8192..8202}"
  unfolding trim_Nil_iff by (auto simp: isWhiteSpace_def)

lemma canConnect_source: "canConnect state c \<Longrightarrow> truthy (source c)"
  by (simp add: canConnect_def split: if_splits)

section \<open>The store operations\<close>

text \<open>
  C9. \<open>addNode(node)\<close> puts the node at the end of the node collection and selects it: the
  nodes that were there are the prefix of the new collection, in the same order, the new
  last element is the given node, the selection is its id, and the edge collection is the
  one before.
\<close>

theorem addNode_appends_and_selects:
  "nodes (addNode n state) = nodes state @ [n] \<and>
   take (length (nodes state)) (nodes (addNode n state)) = nodes state \<and>
   last (nodes (addNode n state)) = n \<and>
   length (nodes (addNode n state)) = Suc (length (nodes state)) \<and>
   selectedNodeId (addNode n state) = Some (node_id n) \<and>
   edges (addNode n state) = edges state"
  by (simp add: addNode_def)

text \<open>Witness: a node dropped on the canvas is added to the initial store.\<close>

theorem addNode_appends_and_selects_witness:
  "nodes (addNode \<lparr>node_id = js ''n2'', node_type = Some (js ''textMessage''),
                    position = \<lparr>pos_x = 10, pos_y = 20\<rparr>,
                    data = \<lparr>content = js ''New chatbot message''\<rparr>\<rparr> initialState) =
     initialNodes @ [\<lparr>node_id = js ''n2'', node_type = Some (js ''textMessage''),
                      position = \<lparr>pos_x = 10, pos_y = 20\<rparr>,
                      data = \<lparr>content = js ''New chatbot message''\<rparr>\<rparr>] \<and>
   selectedNodeId (addNode \<lparr>node_id = js ''n2'', node_type = Some (js ''textMessage''),
                    position = \<lparr>pos_x = 10, pos_y = 20\<rparr>,
                    data = \<lparr>content = js ''New chatbot message''\<rparr>\<rparr> initialState) =
     Some (js ''n2'')"
  using addNode_appends_and_selects
          [of "\<lparr>node_id = js ''n2'', node_type = Some (js ''textMessage''),
                position = \<lparr>pos_x = 10, pos_y = 20\<rparr>,
                data = \<lparr>content = js ''New chatbot message''\<rparr>\<rparr>" initialState]
  by (simp add: initialState_def)

text \<open>
  C7. \<open>updateNodeData(id, partialData)\<close> keeps the node collection's length and order;
  a node whose id matches gets the given fields merged into its data (a given content
  replaces the old one, an absent one keeps it) while its id, type and position stay; a
  node with another id is unchanged; edges and selection are unchanged; and when no node
  has the id the whole state is unchanged.
\<close>

theorem updateNodeData_frame:
  "length (nodes (updateNodeData i d state)) = length (nodes state) \<and>
   (\<forall>k<length (nodes state).
      (node_id (nodes state ! k) = i \<longrightarrow>
         nodes (updateNodeData i d state) ! k =
           (nodes state ! k)\<lparr>data := mergeData (data (nodes state ! k)) d\<rparr> \<and>
         content (data (nodes (updateNodeData i d state) ! k)) =
           (case content_opt d of None \<Rightarrow> content (data (nodes state ! k)) | Some c \<Rightarrow> c)) \<and>
      (node_id (nodes state ! k) \<noteq> i \<longrightarrow>
         nodes (updateNodeData i d state) ! k = nodes state ! k) \<and>
      node_id (nodes (updateNodeData i d state) ! k) = node_id (nodes state ! k) \<and>
      node_type (nodes (updateNodeData i d state) ! k) = node_type (nodes state ! k) \<and>
      position (nodes (updateNodeData i d state) ! k) = position (nodes state ! k)) \<and>
   edges (updateNodeData i d state) = edges state \<and>
   selectedNodeId (updateNodeData i d state) = selectedNodeId state \<and>
   (i \<notin> node_id ` set (nodes state) \<longrightarrow> updateNodeData i d state = state)"
proof -
  let ?f = "\<lambda>node. if node_id node = i then node\<lparr>data := mergeData (data node) d\<rparr> else node"
  have nodes_eq: "nodes (updateNodeData i d state) = map ?f (nodes state)"
    by (simp add: updateNodeData_def)
  have len: "length (nodes (updateNodeData i d state)) = length (nodes state)"
    by (simp add: nodes_eq)
  have elems: "\<forall>k<length (nodes state).
      (node_id (nodes state ! k) = i \<longrightarrow>
         nodes (updateNodeData i d state) ! k =
           (nodes state ! k)\<lparr>data := mergeData (data (nodes state ! k)) d\<rparr> \<and>
         content (data (nodes (updateNodeData i d state) ! k)) =
           (case content_opt d of None \<Rightarrow> content (data (nodes state ! k)) | Some c \<Rightarrow> c)) \<and>
      (node_id (nodes state ! k) \<noteq> i \<longrightarrow>
         nodes (updateNodeData i d state) ! k = nodes state ! k) \<and>
      node_id (nodes (updateNodeData i d state) ! k) = node_id (nodes state ! k) \<and>
      node_type (nodes (updateNodeData i d state) ! k) = node_type (nodes state ! k) \<and>
      position (nodes (updateNodeData i d state) ! k) = position (nodes state ! k)"
    by (simp add: nodes_eq mergeData_def split: option.split)
  have frame: "edges (updateNodeData i d state) = edges state \<and>
               selectedNodeId (updateNodeData i d state) = selectedNodeId state"
    by (simp add: updateNodeData_def)
  have noop: "i \<notin> node_id ` set (nodes state) \<longrightarrow> updateNodeData i d state = state"
  proof
    assume "i \<notin> node_id ` set (nodes state)"
    then have "map ?f (nodes state) = nodes state"
      by (intro map_idI) auto
    then show "updateNodeData i d state = state"
      by (simp add: updateNodeData_def)
  qed
  from len elems frame noop show ?thesis by blast
qed

text \<open>Witness: the initial store, first with the id of its node and a new content, then
  with an id that no node has.\<close>

theorem updateNodeData_frame_witness:
  "nodes (updateNodeData (js ''node-1'') \<lparr>content_opt = Some (js ''Hi'')\<rparr> initialState) =
     [\<lparr>node_id = js ''node-1'', node_type = Some (js ''textMessage''),
       position = \<lparr>pos_x = 250, pos_y = 80\<rparr>, data = \<lparr>content = js ''Hi''\<rparr>\<rparr>] \<and>
   js ''node-2'' \<notin> node_id ` set (nodes initialState) \<and>
   updateNodeData (js ''node-2'') \<lparr>content_opt = Some (js ''Hi'')\<rparr> initialState = initialState"
proof -
  have a: "js ''node-2'' \<notin> node_id ` set (nodes initialState)"
    by (simp add: initialState_def initialNodes_def js_def)
  have b: "updateNodeData (js ''node-2'') \<lparr>content_opt = Some (js ''Hi'')\<rparr> initialState
             = initialState"
    using updateNodeData_frame [of "js ''node-2''" "\<lparr>content_opt = Some (js ''Hi'')\<rparr>" initialState] a
    by blast
  have c: "nodes (updateNodeData (js ''node-1'') \<lparr>content_opt = Some (js ''Hi'')\<rparr> initialState) =
     [\<lparr>node_id = js ''node-1'', node_type = Some (js ''textMessage''),
       position = \<lparr>pos_x = 250, pos_y = 80\<rparr>, data = \<lparr>content = js ''Hi''\<rparr>\<rparr>]"
    by (simp add: updateNodeData_def mergeData_def initialState_def initialNodes_def)
  from a b c show ?thesis by blast
qed

text \<open>
  C6, as stated, fails: \<open>addEdge\<close> does not always insert. With an edge from \<open>a\<close> to \<open>b\<close> in
  the store, a second edge from \<open>a\<close> to \<open>b\<close> under another id is not in the collection
  afterwards, and neither is an edge with an empty target added to the empty collection.
\<close>

theorem addEdge_drops_duplicate_connection:
  "newEdge (js ''e2'') (js ''a'') (js ''b'')
       \<lparr>source = Some (js ''a''), target = Some (js ''b''), sourceHandle = None, targetHandle = None\<rparr>
     \<notin> set (edges (addEdge
         (newEdge (js ''e2'') (js ''a'') (js ''b'')
            \<lparr>source = Some (js ''a''), target = Some (js ''b''), sourceHandle = None, targetHandle = None\<rparr>)
         \<lparr>nodes = [],
          edges = [newEdge (js ''e1'') (js ''a'') (js ''b'')
            \<lparr>source = Some (js ''a''), target = Some (js ''b''), sourceHandle = None, targetHandle = None\<rparr>],
          selectedNodeId = None\<rparr>)) \<and>
   newEdge (js ''e3'') (js ''a'') []
       \<lparr>source = Some (js ''a''), target = Some [], sourceHandle = None, targetHandle = None\<rparr>
     \<notin> set (edges (addEdge
         (newEdge (js ''e3'') (js ''a'') []
            \<lparr>source = Some (js ''a''), target = Some [], sourceHandle = None, targetHandle = None\<rparr>)
         \<lparr>nodes = [], edges = [], selectedNodeId = None\<rparr>))"
  by (simp add: addEdge_def addReactFlowEdge_def connectionExists_def newEdge_def js_def)

text \<open>
  C6, amended. \<open>addEdge(edge)\<close> keeps nodes and selection, and the edges that were there stay
  at the front of the collection in their order. The edge is put at the end when its source
  and target are non-empty and no edge of the collection has the same connection; in every
  other case the collection is the one before.
\<close>

theorem addEdge_inserts_unless_present:
  "nodes (addEdge e state) = nodes state \<and>
   selectedNodeId (addEdge e state) = selectedNodeId state \<and>
   take (length (edges state)) (edges (addEdge e state)) = edges state \<and>
   (edge_source e \<noteq> [] \<and> edge_target e \<noteq> [] \<and> \<not> connectionExists e (edges state)
      \<longrightarrow> edges (addEdge e state) = edges state @ [e]) \<and>
   (edge_source e = [] \<or> edge_target e = [] \<or> connectionExists e (edges state)
      \<longrightarrow> edges (addEdge e state) = edges state)"
  by (simp add: addEdge_def addReactFlowEdge_def)

text \<open>Witness: the first edge of a flow is inserted; the same connection again is not.\<close>

theorem addEdge_inserts_unless_present_witness:
  "edges (addEdge
      (newEdge (js ''e1'') (js ''a'') (js ''b'')
         \<lparr>source = Some (js ''a''), target = Some (js ''b''), sourceHandle = None, targetHandle = None\<rparr>)
      initialState) =
     [newEdge (js ''e1'') (js ''a'') (js ''b'')
         \<lparr>source = Some (js ''a''), target = Some (js ''b''), sourceHandle = None, targetHandle = None\<rparr>] \<and>
   edges (addEdge
      (newEdge (js ''e2'') (js ''a'') (js ''b'')
         \<lparr>source = Some (js ''a''), target = Some (js ''b''), sourceHandle = None, targetHandle = None\<rparr>)
      \<lparr>nodes = [],
       edges = [newEdge (js ''e1'') (js ''a'') (js ''b'')
         \<lparr>source = Some (js ''a''), target = Some (js ''b''), sourceHandle = None, targetHandle = None\<rparr>],
       selectedNodeId = None\<rparr>) =
     [newEdge (js ''e1'') (js ''a'') (js ''b'')
         \<lparr>source = Some (js ''a''), target = Some (js ''b''), sourceHandle = None, targetHandle = None\<rparr>]"
proof -
  let ?c = "\<lparr>source = Some (js ''a''), target = Some (js ''b''),
             sourceHandle = None, targetHandle = None\<rparr>"
  let ?e1 = "newEdge (js ''e1'') (js ''a'') (js ''b'') ?c"
  let ?e2 = "newEdge (js ''e2'') (js ''a'') (js ''b'') ?c"
  let ?s = "\<lparr>nodes = [], edges = [?e1], selectedNodeId = None\<rparr>"
  have h1: "edge_source ?e1 \<noteq> [] \<and> edge_target ?e1 \<noteq> [] \<and>
            \<not> connectionExists ?e1 (edges initialState)"
    by (simp add: newEdge_def js_def connectionExists_def initialState_def initialEdges_def)
  have h2: "edge_source ?e2 = [] \<or> edge_target ?e2 = [] \<or> connectionExists ?e2 (edges ?s)"
    by (simp add: newEdge_def connectionExists_def)
  from addEdge_inserts_unless_present [of ?e1 initialState] h1
  have a: "edges (addEdge ?e1 initialState) = edges initialState @ [?e1]" by blast
  from addEdge_inserts_unless_present [of ?e2 ?s] h2
  have b: "edges (addEdge ?e2 ?s) = edges ?s" by blast
  from a b show ?thesis by (simp add: initialState_def initialEdges_def)
qed

text \<open>
  C10. The initial store holds the single node \<open>node-1\<close> of type \<open>textMessage\<close> at (250, 80)
  with the greeting as content, no edge and no selection. That state passes the three
  checks of the save action (there is a node, one node without incoming edge, no node
  without message), so saving it at once succeeds and leaves it as it is.
\<close>

theorem initialState_saves:
  "nodes initialState =
     [\<lparr>node_id = js ''node-1'', node_type = Some (js ''textMessage''),
       position = \<lparr>pos_x = 250, pos_y = 80\<rparr>,
       data = \<lparr>content = js ''Hello! How can I help you today?''\<rparr>\<rparr>] \<and>
   length (nodes initialState) = 1 \<and>
   edges initialState = [] \<and>
   selectedNodeId initialState = None \<and>
   length (nodesWithoutIncomingEdge initialState) = 1 \<and>
   nodesWithoutMessage initialState = [] \<and>
   handleSave initialState =
     (initialState, [ToastSuccess (js ''Flow saved successfully!''),
                     ConsoleLog (nodes initialState) (edges initialState)])"
  by (simp add: handleSave_def initialState_def initialNodes_def initialEdges_def
        nodesWithoutIncomingEdge_def nodesWithoutMessage_def js_def trim_def isWhiteSpace_def)

section \<open>Connecting\<close>

text \<open>
  C3. When \<open>canConnect\<close> rejects a connection, \<open>handleConnect\<close> shows the error toast
  "Each message can branch to only one next step." and returns the store as it was, nodes,
  edges and selection alike. The three causes of a rejection (no source, an edge already
  leaving the source, source equal to target) each make \<open>canConnect\<close> reject.
\<close>

theorem handleConnect_rejected_no_mutation:
  "(\<not> canConnect state c \<longrightarrow>
      handleConnect newId c state =
        (state, [ToastError (js ''Each message can branch to only one next step.'')])) \<and>
   (\<not> truthy (source c) \<or> hasExistingEdge state c \<or> source c = target c
      \<longrightarrow> \<not> canConnect state c)"
  by (simp add: handleConnect_def canConnect_def)

text \<open>Witness: \<open>a\<close> already leads to \<open>b\<close>; a second edge from \<open>a\<close>, to \<open>c\<close>, is refused.\<close>

theorem handleConnect_rejected_no_mutation_witness:
  "handleConnect (js ''e2'')
      \<lparr>source = Some (js ''a''), target = Some (js ''c''), sourceHandle = None, targetHandle = None\<rparr>
      \<lparr>nodes = [],
       edges = [newEdge (js ''e1'') (js ''a'') (js ''b'')
         \<lparr>source = Some (js ''a''), target = Some (js ''b''), sourceHandle = None, targetHandle = None\<rparr>],
       selectedNodeId = None\<rparr> =
     (\<lparr>nodes = [],
       edges = [newEdge (js ''e1'') (js ''a'') (js ''b'')
         \<lparr>source = Some (js ''a''), target = Some (js ''b''), sourceHandle = None, targetHandle = None\<rparr>],
       selectedNodeId = None\<rparr>,
      [ToastError (js ''Each message can branch to only one next step.'')])"
proof -
  let ?c = "\<lparr>source = Some (js ''a''), target = Some (js ''c''),
             sourceHandle = None, targetHandle = None\<rparr>"
  let ?s = "\<lparr>nodes = [],
       edges = [newEdge (js ''e1'') (js ''a'') (js ''b'')
         \<lparr>source = Some (js ''a''), target = Some (js ''b''), sourceHandle = None, targetHandle = None\<rparr>],
       selectedNodeId = None\<rparr>"
  have h: "hasExistingEdge ?s ?c"
    by (simp add: hasExistingEdge_def newEdge_def)
  from handleConnect_rejected_no_mutation [of ?s ?c "js ''e2''"] h
  show ?thesis by blast
qed

text \<open>
  C2, as stated, fails on a connection without a source handle when the edge that leaves
  its source has one: the specification's three conditions hold (the edge uses handle
  \<open>h1\<close>, the connection the implicit one), yet \<open>canConnect\<close> rejects.
\<close>

theorem canConnect_differs_from_spec:
  "canConnect_spec
      \<lparr>nodes = [],
       edges = [newEdge (js ''e1'') (js ''a'') (js ''c'')
         \<lparr>source = Some (js ''a''), target = Some (js ''c''),
          sourceHandle = Some (js ''h1''), targetHandle = None\<rparr>],
       selectedNodeId = None\<rparr>
      \<lparr>source = Some (js ''a''), target = Some (js ''b''), sourceHandle = None, targetHandle = None\<rparr> \<and>
   \<not> canConnect
      \<lparr>nodes = [],
       edges = [newEdge (js ''e1'') (js ''a'') (js ''c'')
         \<lparr>source = Some (js ''a''), target = Some (js ''c''),
          sourceHandle = Some (js ''h1''), targetHandle = None\<rparr>],
       selectedNodeId = None\<rparr>
      \<lparr>source = Some (js ''a''), target = Some (js ''b''), sourceHandle = None, targetHandle = None\<rparr>"
  by (simp add: canConnect_spec_def canConnect_def hasExistingEdge_def sameHandle_def
        newEdge_def js_def)

text \<open>
  C2, amended. \<open>canConnect\<close> accepts if and only if (1) the connection has a source
  endpoint (neither null nor empty), (2) no edge leaves the same source node, when the
  connection has no source handle, or no edge leaves it through the connection's source
  handle, when it has one, and (3) source and target differ. A connection from a node to
  itself is rejected whatever the store holds. Where neither the connection nor the edges
  from its source have a handle, or both have, this is the specification's rule.
\<close>

theorem canConnect_iff:
  "(canConnect state c \<longleftrightarrow>
      truthy (source c) \<and>
      (\<forall>e\<in>set (edges state).
          Some (edge_source e) = source c \<longrightarrow>
            truthy (sourceHandle c) \<and> edge_sourceHandle e \<noteq> sourceHandle c) \<and>
      source c \<noteq> target c) \<and>
   (source c = target c \<longrightarrow> \<not> canConnect state c) \<and>
   ((\<forall>e\<in>set (edges state).
        Some (edge_source e) = source c \<longrightarrow>
          truthy (edge_sourceHandle e) = truthy (sourceHandle c))
      \<longrightarrow> canConnect state c = canConnect_spec state c)"
proof -
  have a: "canConnect state c \<longleftrightarrow>
      truthy (source c) \<and>
      (\<forall>e\<in>set (edges state).
          Some (edge_source e) = source c \<longrightarrow>
            truthy (sourceHandle c) \<and> edge_sourceHandle e \<noteq> sourceHandle c) \<and>
      source c \<noteq> target c"
    by (auto simp: canConnect_def hasExistingEdge_def list_ex_iff)
  have b: "source c = target c \<longrightarrow> \<not> canConnect state c"
    by (simp add: canConnect_def)
  have c: "(\<forall>e\<in>set (edges state).
        Some (edge_source e) = source c \<longrightarrow>
          truthy (edge_sourceHandle e) = truthy (sourceHandle c))
      \<longrightarrow> canConnect state c = canConnect_spec state c"
    unfolding a by (auto simp: canConnect_spec_def sameHandle_def list_ex_iff)
  from a b c show ?thesis by blast
qed

text \<open>Witness: from the initial store, \<open>node-1\<close> may be connected to another node but
  not to itself.\<close>

theorem canConnect_iff_witness:
  "canConnect initialState
      \<lparr>source = Some (js ''node-1''), target = Some (js ''node-2''),
       sourceHandle = None, targetHandle = None\<rparr> \<and>
   \<not> canConnect initialState
      \<lparr>source = Some (js ''node-1''), target = Some (js ''node-1''),
       sourceHandle = None, targetHandle = None\<rparr>"
proof -
  let ?c = "\<lparr>source = Some (js ''node-1''), target = Some (js ''node-2''),
       sourceHandle = None, targetHandle = None\<rparr>"
  let ?d = "\<lparr>source = Some (js ''node-1''), target = Some (js ''node-1''),
       sourceHandle = None, targetHandle = None\<rparr>"
  have h: "truthy (source ?c) \<and>
      (\<forall>e\<in>set (edges initialState).
          Some (edge_source e) = source ?c \<longrightarrow>
            truthy (sourceHandle ?c) \<and> edge_sourceHandle e \<noteq> sourceHandle ?c) \<and>
      source ?c \<noteq> target ?c"
    by (simp add: initialState_def initialEdges_def js_def)
  have k: "source ?d = target ?d" by simp
  from canConnect_iff [of initialState ?c] h have a: "canConnect initialState ?c" by blast
  from canConnect_iff [of initialState ?d] k have b: "\<not> canConnect initialState ?d" by blast
  from a b show ?thesis by blast
qed

text \<open>
  C5, as stated, fails twice. A connection without a target is accepted by \<open>canConnect\<close>
  (it has a source, no edge leaves the source, and the source is not the absent target),
  but \<open>handleConnect\<close> then returns without adding an edge. And the generated identifier
  need not be unique: on a platform without \<open>crypto.randomUUID\<close>, two accepted gestures
  handled within the same millisecond, from \<open>A\<close> to \<open>B\<close> and from \<open>B\<close> to \<open>C\<close>, leave two
  edges in the store that carry the same identifier.
\<close>

theorem handleConnect_accepted_without_target:
  "canConnect initialState
      \<lparr>source = Some (js ''node-1''), target = None, sourceHandle = None, targetHandle = None\<rparr> \<and>
   edges (fst (handleConnect (js ''e1'')
      \<lparr>source = Some (js ''node-1''), target = None, sourceHandle = None, targetHandle = None\<rparr>
      initialState)) = [] \<and>
   canConnect \<lparr>nodes = [], edges = [], selectedNodeId = None\<rparr>
      \<lparr>source = Some (js ''A''), target = Some (js ''B''), sourceHandle = None, targetHandle = None\<rparr> \<and>
   canConnect
      (fst (handleConnect
              (generateEdgeId \<lparr>crypto_randomUUID = None, date_now = 1700000000000\<rparr>)
              \<lparr>source = Some (js ''A''), target = Some (js ''B''),
               sourceHandle = None, targetHandle = None\<rparr>
              \<lparr>nodes = [], edges = [], selectedNodeId = None\<rparr>))
      \<lparr>source = Some (js ''B''), target = Some (js ''C''), sourceHandle = None, targetHandle = None\<rparr> \<and>
   map edge_id (edges (fst (handleConnect
      (generateEdgeId \<lparr>crypto_randomUUID = None, date_now = 1700000000000\<rparr>)
      \<lparr>source = Some (js ''B''), target = Some (js ''C''), sourceHandle = None, targetHandle = None\<rparr>
      (fst (handleConnect
              (generateEdgeId \<lparr>crypto_randomUUID = None, date_now = 1700000000000\<rparr>)
              \<lparr>source = Some (js ''A''), target = Some (js ''B''),
               sourceHandle = None, targetHandle = None\<rparr>
              \<lparr>nodes = [], edges = [], selectedNodeId = None\<rparr>))))) =
     [js ''edge-1700000000000'', js ''edge-1700000000000'']"
proof -
  have t: "toDecimal 1700000000000 = js ''1700000000000''"
    by (simp add: toDecimal.simps js_def)
  have g: "generateEdgeId \<lparr>crypto_randomUUID = None, date_now = 1700000000000\<rparr> =
             js ''edge-1700000000000''"
    by (simp add: generateEdgeId_def t) (simp add: js_def)
  show ?thesis
    unfolding g
    by (simp add: handleConnect_def canConnect_def hasExistingEdge_def addEdge_def
          addReactFlowEdge_def connectionExists_def newEdge_def initialState_def
          initialEdges_def js_def)
qed

text \<open>
  C5, amended. For a connection that \<open>canConnect\<close> accepts and that has a target endpoint,
  \<open>handleConnect\<close> builds the new edge with the generated identifier, the connection's
  source, target and handles and the fixed styling (smoothstep, closed arrow, stroke
  \<open>#6366f1\<close> of width 2) and passes it to the store's \<open>addEdge\<close>; the edge collection
  afterwards is the one before followed by that edge, nodes and selection are unchanged and
  no toast is shown. The identifier is \<open>crypto.randomUUID()\<close> where the platform has it and
  \<open>edge-\<close> followed by the clock's milliseconds otherwise; it is unique among the edges
  whenever that value is not the identifier of an edge already in the store, and then the
  identifiers of the store stay pairwise different if they were. An accepted connection
  without a target endpoint changes nothing.
\<close>

theorem handleConnect_accepted_adds_edge:
  "(canConnect state c \<and> truthy (target c) \<longrightarrow>
      handleConnect newId c state =
        (addEdge \<lparr>edge_id = newId, edge_source = the (source c), edge_target = the (target c),
                  edge_sourceHandle = sourceHandle c, edge_targetHandle = targetHandle c,
                  edge_type = Some (js ''smoothstep''),
                  markerEnd = Some \<lparr>marker_type = ArrowClosed\<rparr>,
                  style = Some \<lparr>stroke = js ''#6366f1'', strokeWidth = 2\<rparr>\<rparr> state, []) \<and>
      edges (fst (handleConnect newId c state)) =
        edges state @
          [\<lparr>edge_id = newId, edge_source = the (source c), edge_target = the (target c),
            edge_sourceHandle = sourceHandle c, edge_targetHandle = targetHandle c,
            edge_type = Some (js ''smoothstep''),
            markerEnd = Some \<lparr>marker_type = ArrowClosed\<rparr>,
            style = Some \<lparr>stroke = js ''#6366f1'', strokeWidth = 2\<rparr>\<rparr>] \<and>
      Some (the (source c)) = source c \<and>
      Some (the (target c)) = target c \<and>
      nodes (fst (handleConnect newId c state)) = nodes state \<and>
      selectedNodeId (fst (handleConnect newId c state)) = selectedNodeId state \<and>
      (newId \<notin> edge_id ` set (edges state) \<longrightarrow>
         (\<forall>k<length (edges state).
            edge_id (edges (fst (handleConnect newId c state)) ! k) \<noteq>
            edge_id (last (edges (fst (handleConnect newId c state))))) \<and>
         (distinct (map edge_id (edges state)) \<longrightarrow>
            distinct (map edge_id (edges (fst (handleConnect newId c state))))))) \<and>
   (canConnect state c \<and> \<not> truthy (target c) \<longrightarrow>
      handleConnect newId c state = (state, [])) \<and>
   (crypto_randomUUID p = Some uuid \<longrightarrow> generateEdgeId p = uuid) \<and>
   (crypto_randomUUID p = None \<longrightarrow>
      generateEdgeId p = [101, 100, 103, 101, 45] @ toDecimal (date_now p)) \<and>
   (date_now p < 10 \<longrightarrow> toDecimal (date_now p) = [48 + date_now p]) \<and>
   (10 \<le> date_now p \<longrightarrow>
      toDecimal (date_now p) = toDecimal (date_now p div 10) @ [48 + date_now p mod 10])"
proof -
  let ?e = "\<lparr>edge_id = newId, edge_source = the (source c), edge_target = the (target c),
             edge_sourceHandle = sourceHandle c, edge_targetHandle = targetHandle c,
             edge_type = Some (js ''smoothstep''),
             markerEnd = Some \<lparr>marker_type = ArrowClosed\<rparr>,
             style = Some \<lparr>stroke = js ''#6366f1'', strokeWidth = 2\<rparr>\<rparr>"
  have second: "canConnect state c \<and> \<not> truthy (target c) \<longrightarrow>
      handleConnect newId c state = (state, [])"
    by (simp add: handleConnect_def)
  have gen: "(crypto_randomUUID p = Some uuid \<longrightarrow> generateEdgeId p = uuid) \<and>
     (crypto_randomUUID p = None \<longrightarrow>
        generateEdgeId p = [101, 100, 103, 101, 45] @ toDecimal (date_now p))"
    by (simp add: generateEdgeId_def js_def)
  have dec: "(date_now p < 10 \<longrightarrow> toDecimal (date_now p) = [48 + date_now p]) \<and>
     (10 \<le> date_now p \<longrightarrow>
        toDecimal (date_now p) = toDecimal (date_now p div 10) @ [48 + date_now p mod 10])"
    using toDecimal.simps [of "date_now p"] by simp
  have first: "canConnect state c \<and> truthy (target c) \<longrightarrow>
      handleConnect newId c state = (addEdge ?e state, []) \<and>
      edges (fst (handleConnect newId c state)) = edges state @ [?e] \<and>
      Some (the (source c)) = source c \<and>
      Some (the (target c)) = target c \<and>
      nodes (fst (handleConnect newId c state)) = nodes state \<and>
      selectedNodeId (fst (handleConnect newId c state)) = selectedNodeId state \<and>
      (newId \<notin> edge_id ` set (edges state) \<longrightarrow>
         (\<forall>k<length (edges state).
            edge_id (edges (fst (handleConnect newId c state)) ! k) \<noteq>
            edge_id (last (edges (fst (handleConnect newId c state))))) \<and>
         (distinct (map edge_id (edges state)) \<longrightarrow>
            distinct (map edge_id (edges (fst (handleConnect newId c state))))))"
  proof
    assume h: "canConnect state c \<and> truthy (target c)"
    then have ts: "truthy (source c)" using canConnect_source by blast
    from ts obtain src where src: "source c = Some src" "src \<noteq> []"
      by (cases "source c") auto
    from h obtain tgt where tgt: "target c = Some tgt" "tgt \<noteq> []"
      by (cases "target c") auto
    have e_eq: "?e = newEdge newId src tgt c"
      by (simp add: newEdge_def src(1) tgt(1))
    have nodup: "\<not> connectionExists ?e (edges state)"
      unfolding e_eq using h src(1) by (simp add: canConnect_no_duplicate)
    have hc: "handleConnect newId c state = (addEdge ?e state, [])"
      unfolding e_eq using h src tgt by (simp add: handleConnect_def)
    have es: "edges (addEdge ?e state) = edges state @ [?e]"
      using nodup src tgt by (simp add: addEdge_def addReactFlowEdge_def)
    have es': "edges (fst (handleConnect newId c state)) = edges state @ [?e]"
      by (simp add: hc es)
    have fr: "nodes (fst (handleConnect newId c state)) = nodes state \<and>
              selectedNodeId (fst (handleConnect newId c state)) = selectedNodeId state"
      by (simp add: hc addEdge_def)
    have uniq: "newId \<notin> edge_id ` set (edges state) \<longrightarrow>
         (\<forall>k<length (edges state).
            edge_id (edges (fst (handleConnect newId c state)) ! k) \<noteq>
            edge_id (last (edges (fst (handleConnect newId c state))))) \<and>
         (distinct (map edge_id (edges state)) \<longrightarrow>
            distinct (map edge_id (edges (fst (handleConnect newId c state)))))"
    proof
      assume fresh: "newId \<notin> edge_id ` set (edges state)"
      have a: "\<forall>k<length (edges state).
            edge_id (edges (fst (handleConnect newId c state)) ! k) \<noteq>
            edge_id (last (edges (fst (handleConnect newId c state))))"
      proof (intro allI impI)
        fix k assume k: "k < length (edges state)"
        then have "edge_id (edges state ! k) \<in> edge_id ` set (edges state)" by simp
        with fresh have "edge_id (edges state ! k) \<noteq> newId" by metis
        then show "edge_id (edges (fst (handleConnect newId c state)) ! k) \<noteq>
            edge_id (last (edges (fst (handleConnect newId c state))))"
          using k by (simp add: es' nth_append)
      qed
      have b: "distinct (map edge_id (edges state)) \<longrightarrow>
            distinct (map edge_id (edges (fst (handleConnect newId c state))))"
        using fresh by (simp add: es')
      from a b show "(\<forall>k<length (edges state).
            edge_id (edges (fst (handleConnect newId c state)) ! k) \<noteq>
            edge_id (last (edges (fst (handleConnect newId c state))))) \<and>
         (distinct (map edge_id (edges state)) \<longrightarrow>
            distinct (map edge_id (edges (fst (handleConnect newId c state)))))"
        by blast
    qed
    have opt: "Some (the (source c)) = source c \<and> Some (the (target c)) = target c"
      by (simp add: src(1) tgt(1))
    from hc es' fr uniq opt
    show "handleConnect newId c state = (addEdge ?e state, []) \<and>
      edges (fst (handleConnect newId c state)) = edges state @ [?e] \<and>
      Some (the (source c)) = source c \<and>
      Some (the (target c)) = target c \<and>
      nodes (fst (handleConnect newId c state)) = nodes state \<and>
      selectedNodeId (fst (handleConnect newId c state)) = selectedNodeId state \<and>
      (newId \<notin> edge_id ` set (edges state) \<longrightarrow>
         (\<forall>k<length (edges state).
            edge_id (edges (fst (handleConnect newId c state)) ! k) \<noteq>
            edge_id (last (edges (fst (handleConnect newId c state))))) \<and>
         (distinct (map edge_id (edges state)) \<longrightarrow>
            distinct (map edge_id (edges (fst (handleConnect newId c state))))))"
      by blast
  qed
  from first second gen dec show ?thesis by blast
qed

text \<open>Witness: with \<open>node-1\<close> already connected to \<open>node-2\<close> under the identifier \<open>e1\<close>,
  connecting \<open>node-2\<close> to \<open>node-3\<close> on a platform whose \<open>randomUUID\<close> returns \<open>u2\<close> adds
  the edge \<open>u2\<close> behind it; the same gesture without a target adds nothing.\<close>

theorem handleConnect_accepted_adds_edge_witness:
  "edges (fst (handleConnect
      (generateEdgeId \<lparr>crypto_randomUUID = Some (js ''u2''), date_now = 7\<rparr>)
      \<lparr>source = Some (js ''node-2''), target = Some (js ''node-3''),
       sourceHandle = None, targetHandle = None\<rparr>
      \<lparr>nodes = [],
       edges = [\<lparr>edge_id = js ''e1'', edge_source = js ''node-1'', edge_target = js ''node-2'',
                 edge_sourceHandle = None, edge_targetHandle = None,
                 edge_type = Some (js ''smoothstep''),
                 markerEnd = Some \<lparr>marker_type = ArrowClosed\<rparr>,
                 style = Some \<lparr>stroke = js ''#6366f1'', strokeWidth = 2\<rparr>\<rparr>],
       selectedNodeId = None\<rparr>)) =
     [\<lparr>edge_id = js ''e1'', edge_source = js ''node-1'', edge_target = js ''node-2'',
       edge_sourceHandle = None, edge_targetHandle = None,
       edge_type = Some (js ''smoothstep''),
       markerEnd = Some \<lparr>marker_type = ArrowClosed\<rparr>,
       style = Some \<lparr>stroke = js ''#6366f1'', strokeWidth = 2\<rparr>\<rparr>,
      \<lparr>edge_id = js ''u2'', edge_source = js ''node-2'', edge_target = js ''node-3'',
       edge_sourceHandle = None, edge_targetHandle = None,
       edge_type = Some (js ''smoothstep''),
       markerEnd = Some \<lparr>marker_type = ArrowClosed\<rparr>,
       style = Some \<lparr>stroke = js ''#6366f1'', strokeWidth = 2\<rparr>\<rparr>] \<and>
   distinct (map edge_id (edges (fst (handleConnect
      (generateEdgeId \<lparr>crypto_randomUUID = Some (js ''u2''), date_now = 7\<rparr>)
      \<lparr>source = Some (js ''node-2''), target = Some (js ''node-3''),
       sourceHandle = None, targetHandle = None\<rparr>
      \<lparr>nodes = [],
       edges = [\<lparr>edge_id = js ''e1'', edge_source = js ''node-1'', edge_target = js ''node-2'',
                 edge_sourceHandle = None, edge_targetHandle = None,
                 edge_type = Some (js ''smoothstep''),
                 markerEnd = Some \<lparr>marker_type = ArrowClosed\<rparr>,
                 style = Some \<lparr>stroke = js ''#6366f1'', strokeWidth = 2\<rparr>\<rparr>],
       selectedNodeId = None\<rparr>)))) \<and>
   generateEdgeId \<lparr>crypto_randomUUID = None, date_now = 7\<rparr> = js ''edge-7'' \<and>
   handleConnect (js ''e1'')
      \<lparr>source = Some (js ''node-1''), target = None,
       sourceHandle = None, targetHandle = None\<rparr> initialState = (initialState, [])"
proof -
  let ?p = "\<lparr>crypto_randomUUID = Some (js ''u2''), date_now = 7\<rparr>"
  let ?q = "\<lparr>crypto_randomUUID = None, date_now = 7\<rparr>"
  let ?c = "\<lparr>source = Some (js ''node-2''), target = Some (js ''node-3''),
       sourceHandle = None, targetHandle = None\<rparr>"
  let ?d = "\<lparr>source = Some (js ''node-1''), target = None,
       sourceHandle = None, targetHandle = None\<rparr>"
  let ?s = "\<lparr>nodes = [],
       edges = [\<lparr>edge_id = js ''e1'', edge_source = js ''node-1'', edge_target = js ''node-2'',
                 edge_sourceHandle = None, edge_targetHandle = None,
                 edge_type = Some (js ''smoothstep''),
                 markerEnd = Some \<lparr>marker_type = ArrowClosed\<rparr>,
                 style = Some \<lparr>stroke = js ''#6366f1'', strokeWidth = 2\<rparr>\<rparr>],
       selectedNodeId = None\<rparr>"
  have g: "generateEdgeId ?p = js ''u2''"
    using handleConnect_accepted_adds_edge [of ?s ?c "js ''u2''" ?p "js ''u2''"] by simp
  have g': "generateEdgeId ?q = js ''edge-7''"
    using handleConnect_accepted_adds_edge [of ?s ?c "js ''u2''" ?q "js ''u2''"]
    by (simp add: js_def)
  have h: "canConnect ?s ?c \<and> truthy (target ?c)"
    by (simp add: canConnect_def hasExistingEdge_def js_def)
  have fresh: "js ''u2'' \<notin> edge_id ` set (edges ?s)"
    by (simp add: js_def)
  have dist: "distinct (map edge_id (edges ?s))" by simp
  have k: "canConnect initialState ?d \<and> \<not> truthy (target ?d)"
    by (simp add: canConnect_def hasExistingEdge_def initialState_def initialEdges_def js_def)
  from handleConnect_accepted_adds_edge [of ?s ?c "js ''u2''" ?p "js ''u2''"] h fresh dist
  have a: "edges (fst (handleConnect (js ''u2'') ?c ?s)) =
        edges ?s @
          [\<lparr>edge_id = js ''u2'', edge_source = the (source ?c), edge_target = the (target ?c),
            edge_sourceHandle = sourceHandle ?c, edge_targetHandle = targetHandle ?c,
            edge_type = Some (js ''smoothstep''),
            markerEnd = Some \<lparr>marker_type = ArrowClosed\<rparr>,
            style = Some \<lparr>stroke = js ''#6366f1'', strokeWidth = 2\<rparr>\<rparr>]"
    and a': "distinct (map edge_id (edges (fst (handleConnect (js ''u2'') ?c ?s))))"
    by blast+
  from handleConnect_accepted_adds_edge [of initialState ?d "js ''e1''" ?p "js ''u2''"] k
  have b: "handleConnect (js ''e1'') ?d initialState = (initialState, [])"
    by blast
  from a a' b g' show ?thesis
    unfolding g by simp
qed

section \<open>Saving\<close>

text \<open>
  C1, as stated, fails when no node is without an incoming edge. Two nodes \<open>A\<close> and \<open>B\<close>
  with the edges \<open>A \<rightarrow> B\<close> and \<open>B \<rightarrow> A\<close> (both of which \<open>handleConnect\<close> accepts in turn)
  have zero start nodes, which is not exactly one, and the save succeeds.
\<close>

theorem handleSave_accepts_no_start_node:
  "nodes \<lparr>nodes = [\<lparr>node_id = js ''A'', node_type = Some (js ''textMessage''),
                     position = \<lparr>pos_x = 0, pos_y = 0\<rparr>, data = \<lparr>content = js ''hi''\<rparr>\<rparr>,
                    \<lparr>node_id = js ''B'', node_type = Some (js ''textMessage''),
                     position = \<lparr>pos_x = 100, pos_y = 0\<rparr>, data = \<lparr>content = js ''yo''\<rparr>\<rparr>],
           edges = [newEdge (js ''e1'') (js ''A'') (js ''B'')
                      \<lparr>source = Some (js ''A''), target = Some (js ''B''),
                       sourceHandle = None, targetHandle = None\<rparr>,
                    newEdge (js ''e2'') (js ''B'') (js ''A'')
                      \<lparr>source = Some (js ''B''), target = Some (js ''A''),
                       sourceHandle = None, targetHandle = None\<rparr>],
           selectedNodeId = None\<rparr> \<noteq> [] \<and>
   length (nodesWithoutIncomingEdge
          \<lparr>nodes = [\<lparr>node_id = js ''A'', node_type = Some (js ''textMessage''),
                     position = \<lparr>pos_x = 0, pos_y = 0\<rparr>, data = \<lparr>content = js ''hi''\<rparr>\<rparr>,
                    \<lparr>node_id = js ''B'', node_type = Some (js ''textMessage''),
                     position = \<lparr>pos_x = 100, pos_y = 0\<rparr>, data = \<lparr>content = js ''yo''\<rparr>\<rparr>],
           edges = [newEdge (js ''e1'') (js ''A'') (js ''B'')
                      \<lparr>source = Some (js ''A''), target = Some (js ''B''),
                       sourceHandle = None, targetHandle = None\<rparr>,
                    newEdge (js ''e2'') (js ''B'') (js ''A'')
                      \<lparr>source = Some (js ''B''), target = Some (js ''A''),
                       sourceHandle = None, targetHandle = None\<rparr>],
           selectedNodeId = None\<rparr>) \<noteq> 1 \<and>
   snd (handleSave
          \<lparr>nodes = [\<lparr>node_id = js ''A'', node_type = Some (js ''textMessage''),
                     position = \<lparr>pos_x = 0, pos_y = 0\<rparr>, data = \<lparr>content = js ''hi''\<rparr>\<rparr>,
                    \<lparr>node_id = js ''B'', node_type = Some (js ''textMessage''),
                     position = \<lparr>pos_x = 100, pos_y = 0\<rparr>, data = \<lparr>content = js ''yo''\<rparr>\<rparr>],
           edges = [newEdge (js ''e1'') (js ''A'') (js ''B'')
                      \<lparr>source = Some (js ''A''), target = Some (js ''B''),
                       sourceHandle = None, targetHandle = None\<rparr>,
                    newEdge (js ''e2'') (js ''B'') (js ''A'')
                      \<lparr>source = Some (js ''B''), target = Some (js ''A''),
                       sourceHandle = None, targetHandle = None\<rparr>],
           selectedNodeId = None\<rparr>) \<noteq>
     [ToastError (js ''Only one starting node is allowed. Connect your flow before saving.'')] \<and>
   hd (snd (handleSave
          \<lparr>nodes = [\<lparr>node_id = js ''A'', node_type = Some (js ''textMessage''),
                     position = \<lparr>pos_x = 0, pos_y = 0\<rparr>, data = \<lparr>content = js ''hi''\<rparr>\<rparr>,
                    \<lparr>node_id = js ''B'', node_type = Some (js ''textMessage''),
                     position = \<lparr>pos_x = 100, pos_y = 0\<rparr>, data = \<lparr>content = js ''yo''\<rparr>\<rparr>],
           edges = [newEdge (js ''e1'') (js ''A'') (js ''B'')
                      \<lparr>source = Some (js ''A''), target = Some (js ''B''),
                       sourceHandle = None, targetHandle = None\<rparr>,
                    newEdge (js ''e2'') (js ''B'') (js ''A'')
                      \<lparr>source = Some (js ''B''), target = Some (js ''A''),
                       sourceHandle = None, targetHandle = None\<rparr>],
           selectedNodeId = None\<rparr>)) =
     ToastSuccess (js ''Flow saved successfully!'')"
  by (simp add: handleSave_def nodesWithoutIncomingEdge_def nodesWithoutMessage_def
        newEdge_def js_def trim_def isWhiteSpace_def)

text \<open>
  C1, amended. On a non-empty node collection the start-node check counts the nodes that
  no edge targets. When there is more than one, the save is rejected with "Only one
  starting node is allowed. Connect your flow before saving.", the store is unchanged and
  the content check is not reached (the outcome does not depend on any content). When
  there is one or none, the check passes and the outcome is that of the content check.
\<close>

theorem handleSave_start_node_check:
  "set (nodesWithoutIncomingEdge state) =
     {n \<in> set (nodes state). \<forall>e\<in>set (edges state). edge_target e \<noteq> node_id n} \<and>
   (nodes state \<noteq> [] \<and> 1 < length (nodesWithoutIncomingEdge state) \<longrightarrow>
      handleSave state =
        (state, [ToastError
           (js ''Only one starting node is allowed. Connect your flow before saving.'')])) \<and>
   (nodes state \<noteq> [] \<and> length (nodesWithoutIncomingEdge state) \<le> 1 \<longrightarrow>
      handleSave state =
        (if nodesWithoutMessage state \<noteq> []
         then (state, [ToastError (js ''Every node needs message content before saving.'')])
         else (state, [ToastSuccess (js ''Flow saved successfully!''),
                       ConsoleLog (nodes state) (edges state)])))"
  by (simp add: set_nodesWithoutIncomingEdge handleSave_def)

text \<open>Witness: two unconnected nodes, the second of them blank, are rejected for their two
  start nodes, not for the blank content; the initial store passes the check.\<close>

theorem handleSave_start_node_check_witness:
  "handleSave
      \<lparr>nodes = [\<lparr>node_id = js ''A'', node_type = Some (js ''textMessage''),
                 position = \<lparr>pos_x = 0, pos_y = 0\<rparr>, data = \<lparr>content = js ''hi''\<rparr>\<rparr>,
                \<lparr>node_id = js ''B'', node_type = Some (js ''textMessage''),
                 position = \<lparr>pos_x = 100, pos_y = 0\<rparr>, data = \<lparr>content = js '' ''\<rparr>\<rparr>],
       edges = [], selectedNodeId = None\<rparr> =
     (\<lparr>nodes = [\<lparr>node_id = js ''A'', node_type = Some (js ''textMessage''),
                 position = \<lparr>pos_x = 0, pos_y = 0\<rparr>, data = \<lparr>content = js ''hi''\<rparr>\<rparr>,
                \<lparr>node_id = js ''B'', node_type = Some (js ''textMessage''),
                 position = \<lparr>pos_x = 100, pos_y = 0\<rparr>, data = \<lparr>content = js '' ''\<rparr>\<rparr>],
       edges = [], selectedNodeId = None\<rparr>,
      [ToastError (js ''Only one starting node is allowed. Connect your flow before saving.'')]) \<and>
   snd (handleSave initialState) =
     [ToastSuccess (js ''Flow saved successfully!''), ConsoleLog initialNodes []]"
proof -
  let ?s = "\<lparr>nodes = [\<lparr>node_id = js ''A'', node_type = Some (js ''textMessage''),
                 position = \<lparr>pos_x = 0, pos_y = 0\<rparr>, data = \<lparr>content = js ''hi''\<rparr>\<rparr>,
                \<lparr>node_id = js ''B'', node_type = Some (js ''textMessage''),
                 position = \<lparr>pos_x = 100, pos_y = 0\<rparr>, data = \<lparr>content = js '' ''\<rparr>\<rparr>],
       edges = [], selectedNodeId = None\<rparr>"
  have h: "nodes ?s \<noteq> [] \<and> 1 < length (nodesWithoutIncomingEdge ?s)"
    by (simp add: nodesWithoutIncomingEdge_def)
  have k: "nodes initialState \<noteq> [] \<and> length (nodesWithoutIncomingEdge initialState) \<le> 1"
    by (simp add: nodesWithoutIncomingEdge_def initialState_def initialNodes_def initialEdges_def)
  have m: "nodesWithoutMessage initialState = []"
    by (simp add: nodesWithoutMessage_def initialState_def initialNodes_def js_def trim_def
          isWhiteSpace_def)
  from handleSave_start_node_check [of ?s] h
  have a: "handleSave ?s = (?s, [ToastError
           (js ''Only one starting node is allowed. Connect your flow before saving.'')])"
    by blast
  from handleSave_start_node_check [of initialState] k
  have "handleSave initialState =
        (if nodesWithoutMessage initialState \<noteq> []
         then (initialState, [ToastError (js ''Every node needs message content before saving.'')])
         else (initialState, [ToastSuccess (js ''Flow saved successfully!''),
                       ConsoleLog (nodes initialState) (edges initialState)]))"
    by blast
  then have "snd (handleSave initialState) =
     [ToastSuccess (js ''Flow saved successfully!''),
      ConsoleLog (nodes initialState) (edges initialState)]"
    by (simp add: m)
  then have b: "snd (handleSave initialState) =
     [ToastSuccess (js ''Flow saved successfully!''), ConsoleLog initialNodes []]"
    by (simp add: initialState_def initialEdges_def)
  from a b show ?thesis by blast
qed

text \<open>
  C4, as stated, fails in its last clause: a single node whose content is three blanks has
  non-empty content and no edge, and its save is rejected by the third check.
\<close>

theorem handleSave_rejects_blank_single_node:
  "js ''   '' \<noteq> [] \<and>
   handleSave
      \<lparr>nodes = [\<lparr>node_id = js ''A'', node_type = Some (js ''textMessage''),
                 position = \<lparr>pos_x = 0, pos_y = 0\<rparr>, data = \<lparr>content = js ''   ''\<rparr>\<rparr>],
       edges = [], selectedNodeId = None\<rparr> =
     (\<lparr>nodes = [\<lparr>node_id = js ''A'', node_type = Some (js ''textMessage''),
                 position = \<lparr>pos_x = 0, pos_y = 0\<rparr>, data = \<lparr>content = js ''   ''\<rparr>\<rparr>],
       edges = [], selectedNodeId = None\<rparr>,
      [ToastError (js ''Every node needs message content before saving.'')])"
  by (simp add: handleSave_def nodesWithoutIncomingEdge_def nodesWithoutMessage_def
        js_def trim_def isWhiteSpace_def)

text \<open>
  C4, amended. The save action runs three checks in this order and stops at the first that
  fails, each with its own error toast: (1) there is a node, "Add at least one node before
  saving."; (2) the start-node check, no more than one node that no edge targets, "Only
  one starting node is allowed. Connect your flow before saving."; (3) every node's
  content has a code unit that is not white space, which is to say it is non-empty once
  trimmed, "Every node needs message content before saving.". When all three pass, it
  shows the success toast and hands the current nodes and edges on. So a store of a single
  node with no edge is saved when the node's content is non-empty once trimmed.
  White space is written out as the code units that \<open>trim\<close> removes.
\<close>

theorem handleSave_three_checks:
  "(nodes state = [] \<longrightarrow>
      handleSave state = (state, [ToastError (js ''Add at least one node before saving.'')])) \<and>
   (nodes state \<noteq> [] \<and> 1 < length (filter (\<lambda>n. \<forall>e\<in>set (edges state). edge_target e \<noteq> node_id n) (nodes state)) \<longrightarrow>
      handleSave state =
        (state, [ToastError
           (js ''Only one starting node is allowed. Connect your flow before saving.'')])) \<and>
   (nodes state \<noteq> [] \<and> length (filter (\<lambda>n. \<forall>e\<in>set (edges state). edge_target e \<noteq> node_id n) (nodes state)) \<le> 1 \<and>
    (\<exists>n\<in>set (nodes state). set (content (data n)) \<subseteq> {9, 10, 11, 12, 13, 32, 160, 5760, 8232, 8233, 8239, 8287, 12288, 65279}
                                   \<union> {8192..8202}) \<longrightarrow>
      handleSave state =
        (state, [ToastError (js ''Every node needs message content before saving.'')])) \<and>
   (nodes state \<noteq> [] \<and> length (filter (\<lambda>n. \<forall>e\<in>set (edges state). edge_target e \<noteq> node_id n) (nodes state)) \<le> 1 \<and>
    (\<forall>n\<in>set (nodes state). \<not> set (content (data n)) \<subseteq> {9, 10, 11, 12, 13, 32, 160, 5760, 8232, 8233, 8239, 8287, 12288, 65279}
                                   \<union> {8192..8202}) \<longrightarrow>
      handleSave state =
        (state, [ToastSuccess (js ''Flow saved successfully!''),
                 ConsoleLog (nodes state) (edges state)])) \<and>
   distinct [js ''Add at least one node before saving.'',
             js ''Only one starting node is allowed. Connect your flow before saving.'',
             js ''Every node needs message content before saving.''] \<and>
   (nodes state = [n] \<and> edges state = [] \<and>
    \<not> set (content (data n)) \<subseteq> {9, 10, 11, 12, 13, 32, 160, 5760, 8232, 8233, 8239, 8287, 12288, 65279}
                                   \<union> {8192..8202} \<longrightarrow>
      handleSave state =
        (state, [ToastSuccess (js ''Flow saved successfully!''),
                 ConsoleLog (nodes state) (edges state)]))"
proof -
  have c1: "nodes state = [] \<longrightarrow>
      handleSave state = (state, [ToastError (js ''Add at least one node before saving.'')])"
    by (simp add: handleSave_def)
  have c2: "nodes state \<noteq> [] \<and> 1 < length (filter (\<lambda>n. \<forall>e\<in>set (edges state). edge_target e \<noteq> node_id n) (nodes state)) \<longrightarrow>
      handleSave state =
        (state, [ToastError
           (js ''Only one starting node is allowed. Connect your flow before saving.'')])"
    by (simp add: handleSave_def nodesWithoutIncomingEdge_filter)
  have msg: "nodesWithoutMessage state = [] \<longleftrightarrow>
     (\<forall>n\<in>set (nodes state). \<not> set (content (data n)) \<subseteq> {9, 10, 11, 12, 13, 32, 160, 5760, 8232, 8233, 8239, 8287, 12288, 65279}
                                   \<union> {8192..8202})"
    by (simp only: nodesWithoutMessage_Nil_iff trim_Nil_iff_subset)
  have c3: "nodes state \<noteq> [] \<and> length (filter (\<lambda>n. \<forall>e\<in>set (edges state). edge_target e \<noteq> node_id n) (nodes state)) \<le> 1 \<and>
    (\<exists>n\<in>set (nodes state). set (content (data n)) \<subseteq> {9, 10, 11, 12, 13, 32, 160, 5760, 8232, 8233, 8239, 8287, 12288, 65279}
                                   \<union> {8192..8202}) \<longrightarrow>
      handleSave state =
        (state, [ToastError (js ''Every node needs message content before saving.'')])"
    using msg by (auto simp: handleSave_def nodesWithoutIncomingEdge_filter)
  have c4: "nodes state \<noteq> [] \<and> length (filter (\<lambda>n. \<forall>e\<in>set (edges state). edge_target e \<noteq> node_id n) (nodes state)) \<le> 1 \<and>
    (\<forall>n\<in>set (nodes state). \<not> set (content (data n)) \<subseteq> {9, 10, 11, 12, 13, 32, 160, 5760, 8232, 8233, 8239, 8287, 12288, 65279}
                                   \<union> {8192..8202}) \<longrightarrow>
      handleSave state =
        (state, [ToastSuccess (js ''Flow saved successfully!''),
                 ConsoleLog (nodes state) (edges state)])"
    using msg by (auto simp: handleSave_def nodesWithoutIncomingEdge_filter)
  have d: "distinct [js ''Add at least one node before saving.'',
             js ''Only one starting node is allowed. Connect your flow before saving.'',
             js ''Every node needs message content before saving.'']"
    by (simp add: js_def)
  have single: "nodes state = [n] \<and> edges state = [] \<and>
    \<not> set (content (data n)) \<subseteq> {9, 10, 11, 12, 13, 32, 160, 5760, 8232, 8233, 8239, 8287, 12288, 65279}
                                   \<union> {8192..8202} \<longrightarrow>
      handleSave state =
        (state, [ToastSuccess (js ''Flow saved successfully!''),
                 ConsoleLog (nodes state) (edges state)])"
  proof
    assume h: "nodes state = [n] \<and> edges state = [] \<and>
      \<not> set (content (data n)) \<subseteq> {9, 10, 11, 12, 13, 32, 160, 5760, 8232, 8233, 8239, 8287, 12288, 65279}
                                   \<union> {8192..8202}"
    then have "length (filter (\<lambda>n. \<forall>e\<in>set (edges state). edge_target e \<noteq> node_id n) (nodes state)) \<le> 1"
      by simp
    moreover have "nodes state \<noteq> []" using h by simp
    moreover have "\<forall>m\<in>set (nodes state). \<not> set (content (data m)) \<subseteq> {9, 10, 11, 12, 13, 32, 160, 5760, 8232, 8233, 8239, 8287, 12288, 65279}
                                   \<union> {8192..8202}"
      using h by simp
    ultimately show "handleSave state =
        (state, [ToastSuccess (js ''Flow saved successfully!''),
                 ConsoleLog (nodes state) (edges state)])"
      using c4 by blast
  qed
  from c1 c2 c3 c4 d single show ?thesis by blast
qed

text \<open>Witness, one store for each outcome. The empty store fails the first check. Two
  unconnected nodes, the second blank, fail the second check, which the blank content does
  not get to change. The same two nodes joined by an edge pass it and fail the third. Two
  joined nodes with content are saved, and so is a single node.\<close>

theorem handleSave_three_checks_witness:
  "handleSave
      \<lparr>nodes = [],
       edges = [], selectedNodeId = None\<rparr> =
     (\<lparr>nodes = [],
       edges = [], selectedNodeId = None\<rparr>,
      [ToastError (js ''Add at least one node before saving.'')]) \<and>
   handleSave
      \<lparr>nodes = [\<lparr>node_id = js ''A'', node_type = Some (js ''textMessage''),
                 position = \<lparr>pos_x = 0, pos_y = 0\<rparr>, data = \<lparr>content = js ''hi''\<rparr>\<rparr>,
                \<lparr>node_id = js ''B'', node_type = Some (js ''textMessage''),
                 position = \<lparr>pos_x = 100, pos_y = 0\<rparr>, data = \<lparr>content = js '' ''\<rparr>\<rparr>],
       edges = [], selectedNodeId = None\<rparr> =
     (\<lparr>nodes = [\<lparr>node_id = js ''A'', node_type = Some (js ''textMessage''),
                 position = \<lparr>pos_x = 0, pos_y = 0\<rparr>, data = \<lparr>content = js ''hi''\<rparr>\<rparr>,
                \<lparr>node_id = js ''B'', node_type = Some (js ''textMessage''),
                 position = \<lparr>pos_x = 100, pos_y = 0\<rparr>, data = \<lparr>content = js '' ''\<rparr>\<rparr>],
       edges = [], selectedNodeId = None\<rparr>,
      [ToastError (js ''Only one starting node is allowed. Connect your flow before saving.'')]) \<and>
   handleSave
      \<lparr>nodes = [\<lparr>node_id = js ''A'', node_type = Some (js ''textMessage''),
                 position = \<lparr>pos_x = 0, pos_y = 0\<rparr>, data = \<lparr>content = js ''hi''\<rparr>\<rparr>,
                \<lparr>node_id = js ''B'', node_type = Some (js ''textMessage''),
                 position = \<lparr>pos_x = 100, pos_y = 0\<rparr>, data = \<lparr>content = js '' ''\<rparr>\<rparr>],
       edges = [\<lparr>edge_id = js ''e1'', edge_source = js ''A'', edge_target = js ''B'',
                 edge_sourceHandle = None, edge_targetHandle = None,
                 edge_type = Some (js ''smoothstep''),
                 markerEnd = Some \<lparr>marker_type = ArrowClosed\<rparr>,
                 style = Some \<lparr>stroke = js ''#6366f1'', strokeWidth = 2\<rparr>\<rparr>], selectedNodeId = None\<rparr> =
     (\<lparr>nodes = [\<lparr>node_id = js ''A'', node_type = Some (js ''textMessage''),
                 position = \<lparr>pos_x = 0, pos_y = 0\<rparr>, data = \<lparr>content = js ''hi''\<rparr>\<rparr>,
                \<lparr>node_id = js ''B'', node_type = Some (js ''textMessage''),
                 position = \<lparr>pos_x = 100, pos_y = 0\<rparr>, data = \<lparr>content = js '' ''\<rparr>\<rparr>],
       edges = [\<lparr>edge_id = js ''e1'', edge_source = js ''A'', edge_target = js ''B'',
                 edge_sourceHandle = None, edge_targetHandle = None,
                 edge_type = Some (js ''smoothstep''),
                 markerEnd = Some \<lparr>marker_type = ArrowClosed\<rparr>,
                 style = Some \<lparr>stroke = js ''#6366f1'', strokeWidth = 2\<rparr>\<rparr>], selectedNodeId = None\<rparr>,
      [ToastError (js ''Every node needs message content before saving.'')]) \<and>
   handleSave
      \<lparr>nodes = [\<lparr>node_id = js ''A'', node_type = Some (js ''textMessage''),
                 position = \<lparr>pos_x = 0, pos_y = 0\<rparr>, data = \<lparr>content = js ''hi''\<rparr>\<rparr>,
                \<lparr>node_id = js ''B'', node_type = Some (js ''textMessage''),
                 position = \<lparr>pos_x = 100, pos_y = 0\<rparr>, data = \<lparr>content = js ''yo''\<rparr>\<rparr>],
       edges = [\<lparr>edge_id = js ''e1'', edge_source = js ''A'', edge_target = js ''B'',
                 edge_sourceHandle = None, edge_targetHandle = None,
                 edge_type = Some (js ''smoothstep''),
                 markerEnd = Some \<lparr>marker_type = ArrowClosed\<rparr>,
                 style = Some \<lparr>stroke = js ''#6366f1'', strokeWidth = 2\<rparr>\<rparr>], selectedNodeId = None\<rparr> =
     (\<lparr>nodes = [\<lparr>node_id = js ''A'', node_type = Some (js ''textMessage''),
                 position = \<lparr>pos_x = 0, pos_y = 0\<rparr>, data = \<lparr>content = js ''hi''\<rparr>\<rparr>,
                \<lparr>node_id = js ''B'', node_type = Some (js ''textMessage''),
                 position = \<lparr>pos_x = 100, pos_y = 0\<rparr>, data = \<lparr>content = js ''yo''\<rparr>\<rparr>],
       edges = [\<lparr>edge_id = js ''e1'', edge_source = js ''A'', edge_target = js ''B'',
                 edge_sourceHandle = None, edge_targetHandle = None,
                 edge_type = Some (js ''smoothstep''),
                 markerEnd = Some \<lparr>marker_type = ArrowClosed\<rparr>,
                 style = Some \<lparr>stroke = js ''#6366f1'', strokeWidth = 2\<rparr>\<rparr>], selectedNodeId = None\<rparr>,
      [ToastSuccess (js ''Flow saved successfully!''),
       ConsoleLog [\<lparr>node_id = js ''A'', node_type = Some (js ''textMessage''),
                 position = \<lparr>pos_x = 0, pos_y = 0\<rparr>, data = \<lparr>content = js ''hi''\<rparr>\<rparr>,
                \<lparr>node_id = js ''B'', node_type = Some (js ''textMessage''),
                 position = \<lparr>pos_x = 100, pos_y = 0\<rparr>, data = \<lparr>content = js ''yo''\<rparr>\<rparr>]
                  [\<lparr>edge_id = js ''e1'', edge_source = js ''A'', edge_target = js ''B'',
                 edge_sourceHandle = None, edge_targetHandle = None,
                 edge_type = Some (js ''smoothstep''),
                 markerEnd = Some \<lparr>marker_type = ArrowClosed\<rparr>,
                 style = Some \<lparr>stroke = js ''#6366f1'', strokeWidth = 2\<rparr>\<rparr>]]) \<and>
   handleSave
      \<lparr>nodes = [\<lparr>node_id = js ''A'', node_type = Some (js ''textMessage''),
                 position = \<lparr>pos_x = 0, pos_y = 0\<rparr>, data = \<lparr>content = js ''hi''\<rparr>\<rparr>],
       edges = [], selectedNodeId = None\<rparr> =
     (\<lparr>nodes = [\<lparr>node_id = js ''A'', node_type = Some (js ''textMessage''),
                 position = \<lparr>pos_x = 0, pos_y = 0\<rparr>, data = \<lparr>content = js ''hi''\<rparr>\<rparr>],
       edges = [], selectedNodeId = None\<rparr>,
      [ToastSuccess (js ''Flow saved successfully!''),
       ConsoleLog [\<lparr>node_id = js ''A'', node_type = Some (js ''textMessage''),
                 position = \<lparr>pos_x = 0, pos_y = 0\<rparr>, data = \<lparr>content = js ''hi''\<rparr>\<rparr>]
                  []])"
proof -
  let ?z = "\<lparr>nodes = [],
       edges = [], selectedNodeId = None\<rparr>"
  let ?s1 = "\<lparr>nodes = [\<lparr>node_id = js ''A'', node_type = Some (js ''textMessage''),
                 position = \<lparr>pos_x = 0, pos_y = 0\<rparr>, data = \<lparr>content = js ''hi''\<rparr>\<rparr>],
       edges = [], selectedNodeId = None\<rparr>"
  let ?s2 = "\<lparr>nodes = [\<lparr>node_id = js ''A'', node_type = Some (js ''textMessage''),
                 position = \<lparr>pos_x = 0, pos_y = 0\<rparr>, data = \<lparr>content = js ''hi''\<rparr>\<rparr>,
                \<lparr>node_id = js ''B'', node_type = Some (js ''textMessage''),
                 position = \<lparr>pos_x = 100, pos_y = 0\<rparr>, data = \<lparr>content = js '' ''\<rparr>\<rparr>],
       edges = [], selectedNodeId = None\<rparr>"
  let ?s3 = "\<lparr>nodes = [\<lparr>node_id = js ''A'', node_type = Some (js ''textMessage''),
                 position = \<lparr>pos_x = 0, pos_y = 0\<rparr>, data = \<lparr>content = js ''hi''\<rparr>\<rparr>,
                \<lparr>node_id = js ''B'', node_type = Some (js ''textMessage''),
                 position = \<lparr>pos_x = 100, pos_y = 0\<rparr>, data = \<lparr>content = js '' ''\<rparr>\<rparr>],
       edges = [\<lparr>edge_id = js ''e1'', edge_source = js ''A'', edge_target = js ''B'',
                 edge_sourceHandle = None, edge_targetHandle = None,
                 edge_type = Some (js ''smoothstep''),
                 markerEnd = Some \<lparr>marker_type = ArrowClosed\<rparr>,
                 style = Some \<lparr>stroke = js ''#6366f1'', strokeWidth = 2\<rparr>\<rparr>], selectedNodeId = None\<rparr>"
  let ?s4 = "\<lparr>nodes = [\<lparr>node_id = js ''A'', node_type = Some (js ''textMessage''),
                 position = \<lparr>pos_x = 0, pos_y = 0\<rparr>, data = \<lparr>content = js ''hi''\<rparr>\<rparr>,
                \<lparr>node_id = js ''B'', node_type = Some (js ''textMessage''),
                 position = \<lparr>pos_x = 100, pos_y = 0\<rparr>, data = \<lparr>content = js ''yo''\<rparr>\<rparr>],
       edges = [\<lparr>edge_id = js ''e1'', edge_source = js ''A'', edge_target = js ''B'',
                 edge_sourceHandle = None, edge_targetHandle = None,
                 edge_type = Some (js ''smoothstep''),
                 markerEnd = Some \<lparr>marker_type = ArrowClosed\<rparr>,
                 style = Some \<lparr>stroke = js ''#6366f1'', strokeWidth = 2\<rparr>\<rparr>], selectedNodeId = None\<rparr>"
  let ?a = "\<lparr>node_id = js ''A'', node_type = Some (js ''textMessage''),
                 position = \<lparr>pos_x = 0, pos_y = 0\<rparr>, data = \<lparr>content = js ''hi''\<rparr>\<rparr>"
  let ?starts = "\<lambda>state. length (filter (\<lambda>n. \<forall>e\<in>set (edges state). edge_target e \<noteq> node_id n)
                                   (nodes state))"
  let ?blank = "\<lambda>n. set (content (data n)) \<subseteq> {9, 10, 11, 12, 13, 32, 160, 5760, 8232, 8233, 8239, 8287, 12288, 65279}
                                   \<union> {8192..8202}"
  have h0: "nodes ?z = []" by simp
  have h2: "nodes ?s2 \<noteq> [] \<and> 1 < ?starts ?s2"
    by (simp add: js_def)
  have h3: "nodes ?s3 \<noteq> [] \<and> ?starts ?s3 \<le> 1 \<and> (\<exists>n\<in>set (nodes ?s3). ?blank n)"
    by (simp add: js_def)
  have h4: "nodes ?s4 \<noteq> [] \<and> ?starts ?s4 \<le> 1 \<and> (\<forall>n\<in>set (nodes ?s4). \<not> ?blank n)"
    by (simp add: js_def)
  have h1: "nodes ?s1 = [?a] \<and> edges ?s1 = [] \<and> \<not> ?blank ?a"
    by (simp add: js_def)
  have r0: "handleSave ?z = (?z, [ToastError (js ''Add at least one node before saving.'')])"
    using handleSave_three_checks [of ?z, THEN conjunct1] h0 by (rule mp)
  have r2: "handleSave ?s2 = (?s2, [ToastError
           (js ''Only one starting node is allowed. Connect your flow before saving.'')])"
    using handleSave_three_checks [of ?s2, THEN conjunct2, THEN conjunct1] h2 by (rule mp)
  have r3: "handleSave ?s3 =
              (?s3, [ToastError (js ''Every node needs message content before saving.'')])"
    using handleSave_three_checks [of ?s3, THEN conjunct2, THEN conjunct2, THEN conjunct1] h3
    by (rule mp)
  have r4: "handleSave ?s4 = (?s4, [ToastSuccess (js ''Flow saved successfully!''),
                 ConsoleLog (nodes ?s4) (edges ?s4)])"
    using handleSave_three_checks
            [of ?s4, THEN conjunct2, THEN conjunct2, THEN conjunct2, THEN conjunct1] h4
    by (rule mp)
  have r1: "handleSave ?s1 = (?s1, [ToastSuccess (js ''Flow saved successfully!''),
                 ConsoleLog (nodes ?s1) (edges ?s1)])"
    using handleSave_three_checks
            [of ?s1 ?a, THEN conjunct2, THEN conjunct2, THEN conjunct2, THEN conjunct2,
             THEN conjunct2] h1
    by (rule mp)
  from r0 r2 r3 r4 r1 show ?thesis by simp
qed

text \<open>
  C8. The save action never changes the store: nodes, edges and selection after it are those
  before it. When the flow is empty, has several start nodes or has a node without
  content, all it does is show one error toast; nothing is handed on as saved. Any outcome
  other than the success toast with the snapshot is such a single error toast.
\<close>

theorem handleSave_failure_no_mutation:
  "fst (handleSave state) = state \<and>
   nodes (fst (handleSave state)) = nodes state \<and>
   edges (fst (handleSave state)) = edges state \<and>
   selectedNodeId (fst (handleSave state)) = selectedNodeId state \<and>
   (nodes state = [] \<or> 1 < length (nodesWithoutIncomingEdge state) \<or>
    nodesWithoutMessage state \<noteq> [] \<longrightarrow>
      (\<exists>msg. snd (handleSave state) = [ToastError msg])) \<and>
   (snd (handleSave state) \<noteq>
      [ToastSuccess (js ''Flow saved successfully!''), ConsoleLog (nodes state) (edges state)]
    \<longrightarrow> (\<exists>msg. snd (handleSave state) = [ToastError msg]))"
proof -
  have unchanged: "fst (handleSave state) = state"
    by (simp add: handleSave_def)
  have failing: "nodes state = [] \<or> 1 < length (nodesWithoutIncomingEdge state) \<or>
      nodesWithoutMessage state \<noteq> [] \<longrightarrow> (\<exists>msg. snd (handleSave state) = [ToastError msg])"
    by (simp add: handleSave_def)
  have other: "snd (handleSave state) \<noteq>
      [ToastSuccess (js ''Flow saved successfully!''), ConsoleLog (nodes state) (edges state)]
    \<longrightarrow> (\<exists>msg. snd (handleSave state) = [ToastError msg])"
    by (simp add: handleSave_def)
  from unchanged failing other show ?thesis by simp
qed

text \<open>Witness: a node whose content is three blanks is refused and the store stays.\<close>

theorem handleSave_failure_no_mutation_witness:
  "handleSave
      \<lparr>nodes = [\<lparr>node_id = js ''A'', node_type = Some (js ''textMessage''),
                 position = \<lparr>pos_x = 0, pos_y = 0\<rparr>, data = \<lparr>content = js ''   ''\<rparr>\<rparr>],
       edges = [], selectedNodeId = Some (js ''A'')\<rparr> =
     (\<lparr>nodes = [\<lparr>node_id = js ''A'', node_type = Some (js ''textMessage''),
                 position = \<lparr>pos_x = 0, pos_y = 0\<rparr>, data = \<lparr>content = js ''   ''\<rparr>\<rparr>],
       edges = [], selectedNodeId = Some (js ''A'')\<rparr>,
      [ToastError (js ''Every node needs message content before saving.'')])"
proof -
  let ?s = "\<lparr>nodes = [\<lparr>node_id = js ''A'', node_type = Some (js ''textMessage''),
                 position = \<lparr>pos_x = 0, pos_y = 0\<rparr>, data = \<lparr>content = js ''   ''\<rparr>\<rparr>],
       edges = [], selectedNodeId = Some (js ''A'')\<rparr>"
  have h: "nodesWithoutMessage ?s \<noteq> []"
    by (simp add: nodesWithoutMessage_def trim_def js_def isWhiteSpace_def)
  from handleSave_failure_no_mutation [of ?s] h
  have a: "fst (handleSave ?s) = ?s" and b: "\<exists>msg. snd (handleSave ?s) = [ToastError msg]"
    by blast+
  have c: "snd (handleSave ?s) =
             [ToastError (js ''Every node needs message content before saving.'')]"
    using h by (simp add: handleSave_def nodesWithoutIncomingEdge_def)
  from a c show ?thesis by (metis prod.collapse)
qed

end
